theory Spec2Isabelle
  imports Complex_Main
begin

section \<open>Strings and characters\<close>

text \<open>
  The extractor (\<^verbatim>\<open>utils/ocrProcessor.ts\<close>) works on JavaScript strings. A string is
  modelled as a \<^typ>\<open>string\<close>, one \<^typ>\<open>char\<close> per code unit, so the model covers
  texts whose code units are below 256 (ASCII and Latin-1). \<^verbatim>\<open>length\<close> counts code
  units, as \<^verbatim>\<open>String.prototype.length\<close> does.
\<close>

text \<open>The members of \<^verbatim>\<open>\s\<close> (and of what \<^verbatim>\<open>trim\<close> removes) below 256:
  TAB, LF, VT, FF, CR, SPACE and NBSP.\<close>

definition isSpace :: "char \<Rightarrow> bool" where
  "isSpace c = (of_char c \<in> {9, 10, 11, 12, 13, 32, 160 :: int})"

definition isDigit :: "char \<Rightarrow> bool" where
  "isDigit c = (48 \<le> (of_char c :: int) \<and> (of_char c :: int) \<le> 57)"

definition isUpperAZ :: "char \<Rightarrow> bool" where
  "isUpperAZ c = (65 \<le> (of_char c :: int) \<and> (of_char c :: int) \<le> 90)"

definition isLowerAZ :: "char \<Rightarrow> bool" where
  "isLowerAZ c = (97 \<le> (of_char c :: int) \<and> (of_char c :: int) \<le> 122)"

text \<open>\<^verbatim>\<open>\w\<close>: the 63 basic word characters.\<close>

definition isWordChar :: "char \<Rightarrow> bool" where
  "isWordChar c = (isDigit c \<or> isUpperAZ c \<or> isLowerAZ c \<or> c = CHR ''_'')"

definition isLineTerminator :: "char \<Rightarrow> bool" where
  "isLineTerminator c = (of_char c \<in> {10, 13 :: int})"

definition asciiUpper :: "char \<Rightarrow> char" where
  "asciiUpper c = (if isLowerAZ c then char_of ((of_char c :: int) - 32) else c)"

definition asciiLower :: "char \<Rightarrow> char" where
  "asciiLower c = (if isUpperAZ c then char_of ((of_char c :: int) + 32) else c)"

text \<open>\<^verbatim>\<open>String.prototype.toLowerCase\<close> on code units below 256: the ASCII capitals and
  the Latin-1 capitals (192 to 222 without the multiplication sign 215) move up by 32.\<close>

definition lowerChar :: "char \<Rightarrow> char" where
  "lowerChar c =
     (let n = (of_char c :: int)
      in if (65 \<le> n \<and> n \<le> 90) \<or> (192 \<le> n \<and> n \<le> 222 \<and> n \<noteq> 215)
         then char_of (n + 32) else c)"

definition toLowerCase :: "string \<Rightarrow> string" where
  "toLowerCase s = map lowerChar s"

text \<open>\<^verbatim>\<open>String.prototype.toUpperCase\<close> on code units below 256. The three code units
  whose capital is not a single code unit below 256 (181, 223, 255) are left as they
  are; the only call site passes a text matched by the pattern-number shapes, which
  holds none of them.\<close>

definition upperChar :: "char \<Rightarrow> char" where
  "upperChar c =
     (let n = (of_char c :: int)
      in if (97 \<le> n \<and> n \<le> 122) \<or> (224 \<le> n \<and> n \<le> 254 \<and> n \<noteq> 247)
         then char_of (n - 32) else c)"

definition toUpperCase :: "string \<Rightarrow> string" where
  "toUpperCase s = map upperChar s"

definition trim :: "string \<Rightarrow> string" where
  "trim s = rev (dropWhile isSpace (rev (dropWhile isSpace s)))"

text \<open>\<^verbatim>\<open>String.prototype.includes\<close>: does \<open>sub\<close> occur in \<open>s\<close> as a contiguous run?\<close>

fun strIncludes :: "string \<Rightarrow> string \<Rightarrow> bool" where
  "strIncludes [] sub = (sub = [])"
| "strIncludes (c # cs) sub = (take (length sub) (c # cs) = sub \<or> strIncludes cs sub)"

text \<open>\<^verbatim>\<open>Array.prototype.join\<close>.\<close>

fun join :: "string \<Rightarrow> string list \<Rightarrow> string" where
  "join sep [] = []"
| "join sep [x] = x"
| "join sep (x # y # ys) = x @ sep @ join sep (y # ys)"

text \<open>JavaScript truthiness of an optional string: defined and not empty.\<close>

definition truthy :: "string option \<Rightarrow> bool" where
  "truthy v = (case v of None \<Rightarrow> False | Some s \<Rightarrow> s \<noteq> [])"


section \<open>Regular expressions\<close>

text \<open>
  The regular expressions of the source, as syntax trees, and the backtracking matcher
  of ECMAScript on them. A class item is a character, a range, \<^verbatim>\<open>\d\<close>, \<^verbatim>\<open>\w\<close> or
  \<^verbatim>\<open>\s\<close>; \<open>Cls neg items\<close> is \<^verbatim>\<open>[...]\<close> (\<^verbatim>\<open>[^...]\<close> when \<open>neg\<close>), and a single
  character is a class of one item. \<open>Rep r lo hi greedy\<close> is \<^verbatim>\<open>r{lo,hi}\<close>
  (\<open>hi = None\<close>: no upper bound), lazy when \<open>greedy\<close> is false. \<open>WordB\<close> is \<^verbatim>\<open>\b\<close>,
  \<open>Bol\<close> is \<^verbatim>\<open>^\<close>. Capture groups do not change which text is matched and every use
  in the source reads only the whole match, so groups are not represented.
\<close>

datatype citem = Ch char | Rng char char | Dgt | Wrd | Spc

datatype re =
    Cls bool "citem list"
  | Seq re re
  | Alt re re
  | Rep re nat "nat option" bool
  | WordB
  | Bol

record flags =
  ignoreCase :: bool
  multiline :: bool

text \<open>A position in the subject: the character before it (none at the start) and
  the rest of the subject from it.\<close>

type_synonym pos = "char option \<times> string"

fun inItem :: "citem \<Rightarrow> char \<Rightarrow> bool" where
  "inItem (Ch a) c = (c = a)"
| "inItem (Rng lo hi) c = ((of_char lo :: int) \<le> of_char c \<and> (of_char c :: int) \<le> of_char hi)"
| "inItem Dgt c = isDigit c"
| "inItem Wrd c = isWordChar c"
| "inItem Spc c = isSpace c"

text \<open>Under the \<^verbatim>\<open>i\<close> flag (without \<^verbatim>\<open>u\<close>) a character matches a class member when
  both have the same canonical form, their capital; a character at 128 or above never
  canonicalises to an ASCII one, and every class member of the source is ASCII, so only
  the ASCII letters are affected.\<close>

definition itemMatch :: "bool \<Rightarrow> citem \<Rightarrow> char \<Rightarrow> bool" where
  "itemMatch ic i c = (inItem i c \<or> (ic \<and> (inItem i (asciiUpper c) \<or> inItem i (asciiLower c))))"

definition clsMatch :: "bool \<Rightarrow> bool \<Rightarrow> citem list \<Rightarrow> char \<Rightarrow> bool" where
  "clsMatch ic neg items c = ((\<exists>i \<in> set items. itemMatch ic i c) \<noteq> neg)"

definition isWordAt :: "char option \<Rightarrow> bool" where
  "isWordAt p = (case p of None \<Rightarrow> False | Some c \<Rightarrow> isWordChar c)"

definition nextChar :: "string \<Rightarrow> char option" where
  "nextChar s = (case s of [] \<Rightarrow> None | c # _ \<Rightarrow> Some c)"

text \<open>
  The matcher returns every position at which a match of the expression starting at
  \<open>x\<close> can end, in the order in which backtracking tries them; the head of the list is
  the match ECMAScript reports. \<open>repeatMatcher\<close> is the quantifier: \<open>k\<close> bounds the
  iterations still allowed, \<open>lo\<close> counts those still required, and an iteration that
  is not required and consumes nothing is rejected.
\<close>

primrec repeatMatcher :: "(pos \<Rightarrow> pos list) \<Rightarrow> bool \<Rightarrow> nat \<Rightarrow> nat \<Rightarrow> pos \<Rightarrow> pos list" where
  "repeatMatcher f greedy 0 lo x = (if lo = 0 then [x] else [])"
| "repeatMatcher f greedy (Suc k) lo x =
     (let more = concat (map (repeatMatcher f greedy k (lo - 1))
                   (filter (\<lambda>y. 0 < lo \<or> length (snd y) < length (snd x)) (f x)));
          stop = (if lo = 0 then [x] else [])
      in if greedy then more @ stop else stop @ more)"

text \<open>Without an upper bound, \<open>lo + length (snd x)\<close> iterations are allowed: beyond
  the required ones each iteration consumes a character, so no match needs more.\<close>

fun matchEnds :: "flags \<Rightarrow> re \<Rightarrow> pos \<Rightarrow> pos list" where
  "matchEnds fl (Cls neg items) x =
     (case snd x of [] \<Rightarrow> []
      | c # cs \<Rightarrow> if clsMatch (ignoreCase fl) neg items c then [(Some c, cs)] else [])"
| "matchEnds fl (Seq a b) x = concat (map (matchEnds fl b) (matchEnds fl a x))"
| "matchEnds fl (Alt a b) x = matchEnds fl a x @ matchEnds fl b x"
| "matchEnds fl (Rep r lo hi greedy) x =
     repeatMatcher (matchEnds fl r) greedy
       (case hi of None \<Rightarrow> lo + length (snd x) | Some h \<Rightarrow> h) lo x"
| "matchEnds fl WordB x = (if isWordAt (fst x) \<noteq> isWordAt (nextChar (snd x)) then [x] else [])"
| "matchEnds fl Bol x =
     (case fst x of None \<Rightarrow> [x]
      | Some c \<Rightarrow> if multiline fl \<and> isLineTerminator c then [x] else [])"

text \<open>\<^verbatim>\<open>RegExp.prototype.exec\<close> from a position: the first start at or after it where
  the expression matches. The result is the text skipped before the match, the
  matched text, and the position where the match ends.\<close>

fun regExpExec :: "flags \<Rightarrow> re \<Rightarrow> pos \<Rightarrow> (string \<times> string \<times> pos) option" where
  "regExpExec fl r (p, s) =
     (case matchEnds fl r (p, s) of
        e # _ \<Rightarrow> Some ([], take (length s - length (snd e)) s, e)
      | [] \<Rightarrow> (case s of [] \<Rightarrow> None
               | c # cs \<Rightarrow> map_option (\<lambda>(sk, m, e). (c # sk, m, e))
                            (regExpExec fl r (Some c, cs))))"

declare regExpExec.simps [simp del]

lemma repeatMatcher_length:
  assumes "\<And>x e. e \<in> set (f x) \<Longrightarrow> length (snd e) \<le> length (snd x)"
  shows "e \<in> set (repeatMatcher f greedy k lo x) \<Longrightarrow> length (snd e) \<le> length (snd x)"
proof (induction k arbitrary: lo x)
  case 0
  then show ?case by (simp split: if_splits)
next
  case (Suc k)
  from Suc.prems consider "e = x"
    | y where "y \<in> set (f x)" and "e \<in> set (repeatMatcher f greedy k (lo - 1) y)"
    by (auto simp: Let_def split: if_splits)
  then show ?case
  proof cases
    case 1
    then show ?thesis by simp
  next
    case 2
    from Suc.IH [OF 2(2)] assms [OF 2(1)] show ?thesis by simp
  qed
qed

lemma matchEnds_length:
  "e \<in> set (matchEnds fl r x) \<Longrightarrow> length (snd e) \<le> length (snd x)"
proof (induction r arbitrary: e x)
  case (Cls neg items)
  then show ?case by (cases x; cases "snd x") (auto split: if_splits)
next
  case (Seq a b)
  from Seq.prems obtain y where "y \<in> set (matchEnds fl a x)" and "e \<in> set (matchEnds fl b y)"
    by auto
  with Seq.IH show ?case by (meson order_trans)
next
  case (Alt a b)
  from Alt.prems have "e \<in> set (matchEnds fl a x) \<or> e \<in> set (matchEnds fl b x)" by simp
  with Alt.IH show ?case by blast
next
  case (Rep r lo hi greedy)
  from Rep.prems show ?case
    by (simp only: matchEnds.simps) (rule repeatMatcher_length [OF Rep.IH])
next
  case WordB
  then show ?case by (simp split: if_splits)
next
  case Bol
  then show ?case by (auto split: option.splits if_splits)
qed

lemma regExpExec_shape:
  "regExpExec fl r (p, s) = Some (sk, m, e) \<Longrightarrow>
     \<exists>s'. s = sk @ s' \<and> m = take (length s' - length (snd e)) s' \<and> length (snd e) \<le> length s'"
proof (induction s arbitrary: p sk)
  case Nil
  show ?case
  proof (cases "matchEnds fl r (p, [])")
    case Nil
    with Nil.prems show ?thesis by (simp add: regExpExec.simps)
  next
    case (Cons e' es)
    with Nil.prems have "e = e'" and "sk = []" and "m = []"
      by (simp_all add: regExpExec.simps)
    moreover from Cons have "e' \<in> set (matchEnds fl r (p, []))" by simp
    from matchEnds_length [OF this] have "length (snd e') \<le> 0" by simp
    ultimately show ?thesis by simp
  qed
next
  case (Cons c cs)
  show ?case
  proof (cases "matchEnds fl r (p, c # cs)")
    case Nil
    with Cons.prems obtain sk' where sk: "sk = c # sk'"
      and ex: "regExpExec fl r (Some c, cs) = Some (sk', m, e)"
      by (auto simp: regExpExec.simps [of fl r p "c # cs"])
    from Cons.IH [OF ex] show ?thesis using sk by auto
  next
    case (Cons e' es)
    with Cons.prems have "e = e'" and "sk = []"
      and "m = take (length (c # cs) - length (snd e')) (c # cs)"
      by (auto simp: regExpExec.simps [of fl r p "c # cs"])
    moreover from Cons have "e' \<in> set (matchEnds fl r (p, c # cs))" by simp
    from matchEnds_length [OF this] have "length (snd e') \<le> length (c # cs)" by simp
    ultimately show ?thesis by simp
  qed
qed

lemma regExpExec_progress:
  assumes "regExpExec fl r (p, s) = Some (sk, m, (q, t))" and "m \<noteq> []"
  shows "length t < length s"
proof -
  from regExpExec_shape [OF assms(1)] obtain s'
    where "s = sk @ s'" and "m = take (length s' - length t) s'" by auto
  with assms(2) show ?thesis by (cases "length s' - length t") auto
qed

text \<open>
  The loop shared by \<^verbatim>\<open>String.prototype.match\<close> and \<^verbatim>\<open>replace\<close> with a \<^verbatim>\<open>g\<close>
  expression: repeated \<^verbatim>\<open>exec\<close>, each search starting where the last match ended, one
  character further after an empty match. The result lists, for every match, the text
  between the previous match and it, and the match; and the text after the last match.
  \<open>pend\<close> is text already passed that belongs in front of the next match.
\<close>

function globalScan :: "flags \<Rightarrow> re \<Rightarrow> string \<Rightarrow> pos \<Rightarrow> (string \<times> string) list \<times> string" where
  "globalScan fl r pend (p, s) =
     (case regExpExec fl r (p, s) of
        None \<Rightarrow> ([], pend @ s)
      | Some (sk, m, (q, t)) \<Rightarrow>
          if m \<noteq> [] then
            (let (ps, rest) = globalScan fl r [] (q, t) in ((pend @ sk, m) # ps, rest))
          else (case t of
                  [] \<Rightarrow> ([(pend @ sk, m)], [])
                | c # cs \<Rightarrow>
                    (let (ps, rest) = globalScan fl r [c] (Some c, cs)
                     in ((pend @ sk, m) # ps, rest))))"
  by pat_completeness auto
termination
proof (relation "measure (\<lambda>(fl, r, pend, x). length (snd x))", goal_cases)
  case 1
  show ?case by simp
next
  case (2 fl r pend p s x2 sk y m z q t)
  then have "regExpExec fl r (p, s) = Some (sk, m, (q, t))" by simp
  from regExpExec_progress [OF this] 2 show ?case by auto
next
  case (3 fl r pend p s x2 sk y m z q t c cs)
  then have "regExpExec fl r (p, s) = Some (sk, m, (q, c # cs))" by simp
  from regExpExec_shape [OF this] show ?case by auto
qed

declare globalScan.simps [simp del]

text \<open>\<^verbatim>\<open>text.match(re)\<close> for a \<^verbatim>\<open>g\<close> expression: all matches; \<^verbatim>\<open>null\<close> is the empty list
  (\<^verbatim>\<open>match\<close> never returns an empty array).\<close>

definition matchAll :: "flags \<Rightarrow> re \<Rightarrow> string \<Rightarrow> string list" where
  "matchAll fl r text = map snd (fst (globalScan fl r [] (None, text)))"

text \<open>\<^verbatim>\<open>text.replace(re, repl)\<close> for a \<^verbatim>\<open>g\<close> expression and a replacement without
  \<^verbatim>\<open>$\<close> patterns.\<close>

definition replaceAll :: "flags \<Rightarrow> re \<Rightarrow> string \<Rightarrow> string \<Rightarrow> string" where
  "replaceAll fl r repl text =
     (let (ps, rest) = globalScan fl r [] (None, text)
      in concat (map (\<lambda>(sk, m). sk @ repl) ps) @ rest)"

text \<open>\<^verbatim>\<open>re.test(text)\<close> on a freshly built expression (\<^verbatim>\<open>lastIndex\<close> is 0).\<close>

definition regExpTest :: "flags \<Rightarrow> re \<Rightarrow> string \<Rightarrow> bool" where
  "regExpTest fl r text = (regExpExec fl r (None, text) \<noteq> None)"

text \<open>\<^verbatim>\<open>text.split(re)\<close> for an expression that matches no empty text (the source
  splits at \<^verbatim>\<open>\s+\<close> only): the pieces between the matches and the piece after the
  last one.\<close>

definition splitAt :: "flags \<Rightarrow> re \<Rightarrow> string \<Rightarrow> string list" where
  "splitAt fl r text =
     (let (ps, rest) = globalScan fl r [] (None, text) in map fst ps @ [rest])"

subsection \<open>Writing expressions\<close>

definition chr :: "char \<Rightarrow> re" where
  "chr c = Cls False [Ch c]"

fun seqs :: "re list \<Rightarrow> re" where
  "seqs [] = Rep (Cls False []) 0 (Some 0) True"
| "seqs [r] = r"
| "seqs (r # rs) = Seq r (seqs rs)"

fun alts :: "re list \<Rightarrow> re" where
  "alts [] = Cls False []"
| "alts [r] = r"
| "alts (r # rs) = Alt r (alts rs)"

definition lit :: "string \<Rightarrow> re" where
  "lit s = seqs (map chr s)"

definition opt :: "re \<Rightarrow> re" where
  "opt r = Rep r 0 (Some 1) True"

definition star :: "re \<Rightarrow> re" where
  "star r = Rep r 0 None True"

definition plus :: "re \<Rightarrow> re" where
  "plus r = Rep r 1 None True"

definition lazyStar :: "re \<Rightarrow> re" where
  "lazyStar r = Rep r 0 None False"

definition ws :: re where
  "ws = Cls False [Spc]"

definition digit :: re where
  "digit = Cls False [Dgt]"

definition capAZ :: re where
  "capAZ = Cls False [Rng CHR ''A'' CHR ''Z'']"

text \<open>\<^verbatim>\<open>.\<close> (no \<^verbatim>\<open>s\<close> flag): any character but a line terminator.\<close>

definition dot :: re where
  "dot = Cls True [Ch (CHR 0x0A), Ch (CHR 0x0D)]"

definition flags_g :: flags where
  "flags_g = \<lparr>ignoreCase = False, multiline = False\<rparr>"

definition flags_gi :: flags where
  "flags_gi = \<lparr>ignoreCase = True, multiline = False\<rparr>"

definition flags_gm :: flags where
  "flags_gm = \<lparr>ignoreCase = False, multiline = True\<rparr>"


section \<open>The extractor\<close>

definition PATTERN_COMPANIES :: "string list" where
  "PATTERN_COMPANIES =
     [''Simplicity'', ''McCall's'', ''Butterick'', ''Vogue'', ''Burda'', ''New Look'',
      ''Kwik Sew'', ''Patterns for Pirates'', ''Closet Core'', ''Cashmerette'',
      ''True Bias'', ''Grainline Studio'', ''Deer & Doe'', ''Named Clothing'',
      ''Papercut Patterns'', ''Sew House Seven'', ''Helen's Closet'', ''Mood Fabrics'']"

definition FABRIC_TYPES :: "string list" where
  "FABRIC_TYPES =
     [''Cotton'', ''Linen'', ''Silk'', ''Wool'', ''Polyester'', ''Rayon'', ''Viscose'',
      ''Jersey'', ''Knit'', ''Woven'', ''Stretch'', ''Denim'', ''Chiffon'', ''Satin'',
      ''Velvet'', ''Fleece'', ''Canvas'', ''Twill'', ''Crepe'', ''Georgette'']"

text \<open>
  \<^verbatim>\<open>SIZE_PATTERNS\<close>. The second and third expressions accept a hyphen or an en dash
  (U+2013) between the numbers; the en dash is no code unit below 256, so only the hyphen
  is in the class here. The class of the fourth expression is written
  \<^verbatim>\<open>[XS|S|M|L|XL|XXL|\d\-\s]\<close> in the source: the letters X, S, M, L, the bar, a digit,
  the hyphen and white space.
\<close>

definition dash :: re where
  "dash = Cls False [Ch CHR ''-'']"

definition sizeLabel :: re where
  "sizeLabel = seqs [lit ''Size'', opt (Cls False [Ch CHR ''s'']), star ws, opt (chr CHR '':''), star ws]"

definition SIZE_PATTERNS :: "(flags \<times> re) list" where
  "SIZE_PATTERNS =
     [(flags_gi, seqs [WordB, alts [lit ''XS'', lit ''S'', lit ''M'', lit ''L'', lit ''XL'', lit ''XXL''], WordB]),
      (flags_g, seqs [WordB, Rep digit 1 (Some 2) True, dash, Rep digit 1 (Some 2) True, WordB]),
      (flags_g, seqs [WordB, Rep digit 1 (Some 2) True, star ws, dash, star ws,
                      Rep digit 1 (Some 2) True, WordB]),
      (flags_gi, seqs [WordB, sizeLabel,
                       plus (Cls False [Ch CHR ''X'', Ch CHR ''S'', Ch CHR ''|'', Ch CHR ''S'', Ch CHR ''|'',
                          Ch CHR ''M'', Ch CHR ''|'', Ch CHR ''L'', Ch CHR ''|'', Ch CHR ''X'', Ch CHR ''L'',
                          Ch CHR ''|'', Ch CHR ''X'', Ch CHR ''X'', Ch CHR ''L'', Ch CHR ''|'',
                          Dgt, Ch CHR ''-'', Spc])])]"

definition DIFFICULTY_PATTERNS :: "(flags \<times> re) list" where
  "DIFFICULTY_PATTERNS =
     [(flags_gi, seqs [WordB, alts [lit ''Beginner'', lit ''Easy'', lit ''Intermediate'',
                                    lit ''Advanced'', lit ''Expert''], WordB]),
      (flags_gi, seqs [WordB, lit ''Level'', star ws, Cls False [Rng CHR ''1'' CHR ''4''], WordB]),
      (flags_gi, seqs [WordB, lit ''Skill'', star ws, lit ''Level'', star ws, opt (chr CHR '':''),
                       star ws, plus (Cls False [Wrd])])]"

subsection \<open>Company\<close>

fun interleave :: "'a \<Rightarrow> 'a list \<Rightarrow> 'a list" where
  "interleave sep [] = []"
| "interleave sep [x] = [x]"
| "interleave sep (x # y # ys) = x # sep # interleave sep (y # ys)"

text \<open>
  The expression built for a catalogue name,
  \<^verbatim>\<open>new RegExp(`\\b${company.replace(/'/g, '\\\'').replace(/\s+/g, '\\s+')}\\b`, 'gi')\<close>:
  the name between two \<^verbatim>\<open>\b\<close>, every run of white space in it replaced by \<^verbatim>\<open>\s+\<close>.
  The escaped apostrophe is the apostrophe itself, and no other character of a
  catalogue name (letters, space, ampersand) is special in an expression, so every
  other character stands for itself.
\<close>

definition companyRegex :: "string \<Rightarrow> re" where
  "companyRegex name =
     seqs ([WordB] @ interleave (plus ws) (map lit (splitAt flags_g (plus ws) name)) @ [WordB])"

fun exactCompany :: "string list \<Rightarrow> string \<Rightarrow> string option" where
  "exactCompany [] text = None"
| "exactCompany (name # names) text =
     (if regExpTest flags_gi (companyRegex name) text then Some name
      else exactCompany names text)"

text \<open>\<^verbatim>\<open>companyWords.some(word => words.includes(word))\<close>.\<close>

definition someWordIncluded :: "string list \<Rightarrow> string list \<Rightarrow> bool" where
  "someWordIncluded companyWords words = list_ex (\<lambda>word. word \<in> set words) companyWords"

fun partialCompany :: "string list \<Rightarrow> string list \<Rightarrow> string option" where
  "partialCompany [] words = None"
| "partialCompany (name # names) words =
     (let companyWords = splitAt flags_g (plus ws) (toLowerCase name)
      in if someWordIncluded companyWords words then Some name
         else partialCompany names words)"

definition extractCompany :: "string \<Rightarrow> string option" where
  "extractCompany text =
     (case exactCompany PATTERN_COMPANIES text of
        Some name \<Rightarrow> Some name
      | None \<Rightarrow> partialCompany PATTERN_COMPANIES (splitAt flags_g (plus ws) (toLowerCase text)))"

subsection \<open>Pattern number\<close>

definition numberCode :: "nat \<Rightarrow> nat \<Rightarrow> re list" where
  "numberCode lo hi = [opt capAZ, Rep digit lo (Some hi) True, opt capAZ]"

definition patternLabel :: re where
  "patternLabel = seqs [lit ''Pattern'', star ws, opt (chr CHR ''#''), star ws, opt (chr CHR '':''), star ws]"

definition noLabel :: re where
  "noLabel = seqs [lit ''No'', opt (chr CHR ''.''), star ws, opt (chr CHR '':''), star ws]"

definition numberPatterns :: "(flags \<times> re) list" where
  "numberPatterns =
     [(flags_g, seqs [WordB, opt capAZ, Rep digit 4 (Some 5) True, WordB]),
      (flags_g, seqs [WordB, Rep digit 3 (Some 4) True, opt capAZ, WordB]),
      (flags_gi, seqs (patternLabel # numberCode 3 5)),
      (flags_gi, seqs (noLabel # numberCode 3 5))]"

text \<open>\<^verbatim>\<open>matches[0].replace(/Pattern\s*#?\s*:?\s*/gi, '').replace(/No\.?\s*:?\s*/gi, '')\<close>.\<close>

definition stripNumberLabels :: "string \<Rightarrow> string" where
  "stripNumberLabels m = replaceAll flags_gi noLabel [] (replaceAll flags_gi patternLabel [] m)"

fun numberLoop :: "(flags \<times> re) list \<Rightarrow> string \<Rightarrow> string option" where
  "numberLoop [] text = None"
| "numberLoop ((fl, pattern) # patterns) text =
     (case matchAll fl pattern text of
        [] \<Rightarrow> numberLoop patterns text
      | m0 # _ \<Rightarrow>
          (let match = stripNumberLabels m0
           in if 3 \<le> length match \<and> length match \<le> 6 then Some (toUpperCase match)
              else numberLoop patterns text))"

definition extractPatternNumber :: "string \<Rightarrow> string option" where
  "extractPatternNumber text = numberLoop numberPatterns text"

subsection \<open>Pattern name\<close>

text \<open>The class the source writes as \<^verbatim>\<open>[^\\n\\r]\<close> inside an expression literal: there
  \<^verbatim>\<open>\\\<close> is an escaped backslash, so the class excludes the backslash and the letters
  \<^verbatim>\<open>n\<close> and \<^verbatim>\<open>r\<close> (under the \<^verbatim>\<open>i\<close> flag their capitals too), and no line break.\<close>

definition notBackslashNR :: re where
  "notBackslashNR = Cls True [Ch (CHR 0x5C), Ch CHR ''n'', Ch (CHR 0x5C), Ch CHR ''r'']"

definition nameLabel :: re where
  "nameLabel = seqs [alts [lit ''Pattern'', lit ''Design''], star ws, opt (chr CHR '':''), star ws]"

definition namePatterns :: "(flags \<times> re) list" where
  "namePatterns =
     [(flags_gi, seqs [nameLabel, capAZ, Rep notBackslashNR 10 (Some 50) True]),
      (flags_gm, seqs [Bol, capAZ, Rep notBackslashNR 10 (Some 50) True])]"

definition qualifierWords :: re where
  "qualifierWords =
     seqs [WordB, alts [lit ''Misses'', lit ''Women'', lit ''Men'', lit ''Children'',
                        lit ''Kids'', lit ''Girls'', lit ''Boys''], WordB]"

text \<open>The clean-up of a matched name. The expression for the company,
  \<^verbatim>\<open>new RegExp(`\\b${company}\\b`, 'gi')\<close>, is built from the name returned by
  \<^verbatim>\<open>extractCompany\<close>, a catalogue name, whose characters stand for themselves.\<close>

definition cleanName :: "string option \<Rightarrow> string \<Rightarrow> string" where
  "cleanName company m0 =
     (let name = trim (replaceAll flags_gi nameLabel [] m0);
          name = trim (replaceAll flags_gi qualifierWords [] name)
      in if truthy company
         then trim (replaceAll flags_gi (seqs [WordB, lit (the company), WordB]) [] name)
         else name)"

fun nameLoop :: "(flags \<times> re) list \<Rightarrow> string \<Rightarrow> string option \<Rightarrow> string option" where
  "nameLoop [] text company = None"
| "nameLoop ((fl, pattern) # patterns) text company =
     (case matchAll fl pattern text of
        [] \<Rightarrow> nameLoop patterns text company
      | m0 # _ \<Rightarrow>
          (let name = cleanName company m0
           in if 5 \<le> length name \<and> length name \<le> 50 then Some name
              else nameLoop patterns text company))"

definition extractPatternName :: "string \<Rightarrow> string option \<Rightarrow> string option" where
  "extractPatternName text company = nameLoop namePatterns text company"

subsection \<open>Size range\<close>

fun sizeLoop :: "(flags \<times> re) list \<Rightarrow> string \<Rightarrow> string option" where
  "sizeLoop [] text = None"
| "sizeLoop ((fl, pattern) # patterns) text =
     (case matchAll fl pattern text of
        [] \<Rightarrow> sizeLoop patterns text
      | m0 # _ \<Rightarrow>
          (let size = trim (replaceAll flags_gi sizeLabel [] m0)
           in if 1 \<le> length size \<and> length size \<le> 20 then Some size
              else sizeLoop patterns text))"

definition extractSizeRange :: "string \<Rightarrow> string option" where
  "extractSizeRange text = sizeLoop SIZE_PATTERNS text"

subsection \<open>Fabric type\<close>

definition fabricLabel :: re where
  "fabricLabel = seqs [lit ''Fabric'', opt (Cls False [Ch CHR ''s'']), star ws, opt (chr CHR '':''), star ws,
                       Rep notBackslashNR 5 (Some 30) True]"

definition fabricKeywords :: "(flags \<times> re) list" where
  "fabricKeywords =
     [(flags_gi, fabricLabel),
      (flags_gi, seqs [lit ''Suggested'', star ws, fabricLabel]),
      (flags_gi, seqs [lit ''Recommended'', star ws, fabricLabel])]"

text \<open>\<^verbatim>\<open>/.*?:\s*/gi\<close>, removed from a match by the fabric and the difficulty rule.\<close>

definition upToColon :: re where
  "upToColon = seqs [lazyStar dot, chr CHR '':'', star ws]"

definition catalogFabrics :: "string \<Rightarrow> string list" where
  "catalogFabrics text =
     filter (\<lambda>fabric. regExpTest flags_gi (seqs [WordB, lit fabric, WordB]) text) FABRIC_TYPES"

fun keywordLoop :: "(flags \<times> re) list \<Rightarrow> string \<Rightarrow> string list \<Rightarrow> string list" where
  "keywordLoop [] text foundFabrics = foundFabrics"
| "keywordLoop ((fl, pattern) # patterns) text foundFabrics =
     (case matchAll fl pattern text of
        [] \<Rightarrow> keywordLoop patterns text foundFabrics
      | m0 # _ \<Rightarrow>
          keywordLoop patterns text
            (foundFabrics @ [trim (replaceAll flags_gi upToColon [] m0)]))"

definition extractFabricType :: "string \<Rightarrow> string option" where
  "extractFabricType text =
     (let foundFabrics = keywordLoop fabricKeywords text (catalogFabrics text)
      in if 0 < length foundFabrics then Some (join '', '' (take 3 foundFabrics)) else None)"

subsection \<open>Difficulty\<close>

definition normalizeDifficulty :: "string \<Rightarrow> string option" where
  "normalizeDifficulty d =
     (let lower = toLowerCase d
      in if strIncludes lower ''beginner'' \<or> strIncludes lower ''easy'' \<or> strIncludes lower ''level 1''
         then Some ''Beginner''
         else if strIncludes lower ''intermediate'' \<or> strIncludes lower ''level 2''
         then Some ''Intermediate''
         else if strIncludes lower ''advanced'' \<or> strIncludes lower ''level 3''
         then Some ''Advanced''
         else if strIncludes lower ''expert'' \<or> strIncludes lower ''level 4''
         then Some ''Expert''
         else None)"

fun difficultyLoop :: "(flags \<times> re) list \<Rightarrow> string \<Rightarrow> string option" where
  "difficultyLoop [] text = None"
| "difficultyLoop ((fl, pattern) # patterns) text =
     (case matchAll fl pattern text of
        [] \<Rightarrow> difficultyLoop patterns text
      | m0 # _ \<Rightarrow>
          (let normalized = normalizeDifficulty (trim (replaceAll flags_gi upToColon [] m0))
           in if truthy normalized then normalized else difficultyLoop patterns text))"

definition extractDifficulty :: "string \<Rightarrow> string option" where
  "extractDifficulty text = difficultyLoop DIFFICULTY_PATTERNS text"

subsection \<open>The record of extracted fields\<close>

text \<open>\<^verbatim>\<open>OCRResult['extractedData']\<close>: six optional strings.\<close>

record extractedData =
  company :: "string option"
  patternNumber :: "string option"
  patternName :: "string option"
  sizeRange :: "string option"
  fabricType :: "string option"
  difficulty :: "string option"

text \<open>\<^verbatim>\<open>if (v) data.field = v\<close>: a field is set only to a truthy value.\<close>

definition emptyData :: extractedData where
  "emptyData = \<lparr>company = None, patternNumber = None, patternName = None,
                 sizeRange = None, fabricType = None, difficulty = None\<rparr>"

definition extractStructuredData :: "string \<Rightarrow> extractedData" where
  "extractStructuredData text =
     (let data = emptyData;
          company = extractCompany text;
          data = (if truthy company then data\<lparr>company := company\<rparr> else data);
          patternNumber = extractPatternNumber text;
          data = (if truthy patternNumber then data\<lparr>patternNumber := patternNumber\<rparr> else data);
          patternName = extractPatternName text company;
          data = (if truthy patternName then data\<lparr>patternName := patternName\<rparr> else data);
          sizeRange = extractSizeRange text;
          data = (if truthy sizeRange then data\<lparr>sizeRange := sizeRange\<rparr> else data);
          fabricType = extractFabricType text;
          data = (if truthy fabricType then data\<lparr>fabricType := fabricType\<rparr> else data);
          difficulty = extractDifficulty text;
          data = (if truthy difficulty then data\<lparr>difficulty := difficulty\<rparr> else data)
      in data)"


section \<open>Numbers\<close>

text \<open>
  A JavaScript number is an IEEE 754 binary64 value. The finite ones are rationals, and
  the score, a sum of at most nine literals below 1, is far inside the finite range, so
  a number is modelled as the rational it denotes, and every literal and every sum is
  rounded to the nearest binary64 value, ties to the even significand: \<open>toDouble\<close>
  (overflow to infinity is not modelled). For a positive \<open>x\<close>,
  \<open>binExponent x\<close> is the exponent \<open>e\<close> with \<open>2 ^ e \<le> x < 2 ^ (e + 1)\<close>, not below
  the least exponent -1022 (so the subnormal numbers share the spacing of the smallest
  normal ones), and the spacing of the values around \<open>x\<close> is \<open>2 ^ (e - 52)\<close>.
\<close>

definition roundTiesEven :: "rat \<Rightarrow> int" where
  "roundTiesEven q =
     (let f = \<lfloor>q\<rfloor>; d = q - of_int f
      in if d < 1 / 2 then f else if 1 / 2 < d then f + 1 else if even f then f else f + 1)"

fun expUp :: "nat \<Rightarrow> rat \<Rightarrow> int" where
  "expUp 0 x = 0"
| "expUp (Suc k) x = (if x < 2 then 0 else expUp k (x / 2) + 1)"

fun expDown :: "nat \<Rightarrow> rat \<Rightarrow> int" where
  "expDown 0 x = 0"
| "expDown (Suc k) x = (if 1 \<le> x then 0 else expDown k (x * 2) - 1)"

definition binExponent :: "rat \<Rightarrow> int" where
  "binExponent x = (if 1 \<le> x then expUp 1023 x else expDown 1022 x)"

definition pow2 :: "int \<Rightarrow> rat" where
  "pow2 e = (if 0 \<le> e then 2 ^ nat e else 1 / 2 ^ nat (- e))"

definition toDouble :: "rat \<Rightarrow> rat" where
  "toDouble x =
     (if x = 0 then 0
      else (let a = \<bar>x\<bar>; u = pow2 (binExponent a - 52);
                r = of_int (roundTiesEven (a / u)) * u
            in if x < 0 then - r else r))"

text \<open>\<^verbatim>\<open>a + b\<close> on numbers.\<close>

definition numAdd :: "rat \<Rightarrow> rat \<Rightarrow> rat" where
  "numAdd a b = toDouble (a + b)"

section \<open>Confidence and the result\<close>

definition calculateConfidence :: "extractedData \<Rightarrow> string \<Rightarrow> rat" where
  "calculateConfidence data txt =
     (let score = toDouble (3 / 10);
          score = (if truthy (company data) then numAdd score (toDouble (2 / 10)) else score);
          score = (if truthy (patternNumber data) then numAdd score (toDouble (2 / 10)) else score);
          score = (if truthy (patternName data) then numAdd score (toDouble (15 / 100)) else score);
          score = (if truthy (sizeRange data) then numAdd score (toDouble (1 / 10)) else score);
          score = (if truthy (fabricType data) then numAdd score (toDouble (5 / 100)) else score);
          score = (if truthy (difficulty data) then numAdd score (toDouble (5 / 100)) else score);
          score = (if 50 < length txt then numAdd score (toDouble (5 / 100)) else score);
          score = (if 100 < length txt then numAdd score (toDouble (5 / 100)) else score)
      in min score (toDouble 1))"

text \<open>\<^verbatim>\<open>OCRResult\<close>; its \<^verbatim>\<open>text\<close> member is \<open>resultText\<close> here.\<close>

record OCRResult =
  resultText :: string
  confidence :: rat
  extractedData :: extractedData

datatype error = ProcessingFailed

text \<open>
  \<^verbatim>\<open>processOCR\<close>. The argument is the outcome of the external call
  \<^verbatim>\<open>await blink.data.extractFromBlob(file)\<close>: the recognised text, or \<open>None\<close> when the
  call throws, which \<^verbatim>\<open>processOCR\<close> turns into the error
  \<^verbatim>\<open>'Failed to process image text'\<close>.
\<close>

definition processOCR :: "string option \<Rightarrow> error + OCRResult" where
  "processOCR outcome =
     (case outcome of
        None \<Rightarrow> Inl ProcessingFailed
      | Some extractedText \<Rightarrow>
          (let cleanText = trim (replaceAll flags_g (plus ws) '' '' extractedText);
               data = extractStructuredData cleanText;
               conf = calculateConfidence data cleanText
           in Inr \<lparr>resultText = cleanText, confidence = conf, extractedData = data\<rparr>))"


section \<open>The add-pattern form\<close>

text \<open>
  \<^verbatim>\<open>components/AddPatternDialog.tsx\<close>. \<^verbatim>\<open>PatternFormData\<close> is the state held by
  \<^verbatim>\<open>useState\<close>; a photo is an opaque \<^verbatim>\<open>File\<close>, and the \<^verbatim>\<open>notes\<close> member is
  \<open>formNotes\<close> here.
\<close>

typedecl File

record PatternFormData =
  patternName :: string
  patternCompany :: string
  patternNumber :: string
  sizeRange :: string
  difficulty :: string
  fabricType :: string
  formNotes :: string
  frontPhoto :: "File option"
  backPhoto :: "File option"

definition initialFormData :: PatternFormData where
  "initialFormData =
     \<lparr>patternName = [], patternCompany = [], patternNumber = [], sizeRange = [],
      difficulty = ''Beginner'', fabricType = [], formNotes = [],
      frontPhoto = None, backPhoto = None\<rparr>"

text \<open>The keys \<^verbatim>\<open>handleInputChange\<close> is called with.\<close>

datatype field =
  PatternName | PatternCompany | PatternNumber | SizeRange | Difficulty | FabricType | Notes

text \<open>\<^verbatim>\<open>handleInputChange(field, value)\<close> queues the updater
  \<^verbatim>\<open>prev => ({ ...prev, [field]: value })\<close>; this is the updater.\<close>

fun handleInputChange :: "field \<Rightarrow> string \<Rightarrow> PatternFormData \<Rightarrow> PatternFormData" where
  "handleInputChange PatternName v prev = prev\<lparr>patternName := v\<rparr>"
| "handleInputChange PatternCompany v prev = prev\<lparr>patternCompany := v\<rparr>"
| "handleInputChange PatternNumber v prev = prev\<lparr>patternNumber := v\<rparr>"
| "handleInputChange SizeRange v prev = prev\<lparr>sizeRange := v\<rparr>"
| "handleInputChange Difficulty v prev = prev\<lparr>difficulty := v\<rparr>"
| "handleInputChange FabricType v prev = prev\<lparr>fabricType := v\<rparr>"
| "handleInputChange Notes v prev = prev\<lparr>formNotes := v\<rparr>"

text \<open>
  The auto-fill of \<^verbatim>\<open>processOCRForPhoto\<close>, after the recognition has returned. Each
  guard reads \<^verbatim>\<open>formData\<close>, the state of the render in which the handler was created
  (the closure keeps it across the \<^verbatim>\<open>await\<close>); each write is an updater, applied to
  the state current when it runs, \<open>prev\<close>.
\<close>

definition autoFill :: "PatternFormData \<Rightarrow> extractedData \<Rightarrow> PatternFormData \<Rightarrow> PatternFormData" where
  "autoFill formData data prev =
     (let prev = (if truthy (company data) \<and> patternCompany formData = []
                  then handleInputChange PatternCompany (the (company data)) prev else prev);
          prev = (if truthy (extractedData.patternNumber data) \<and> patternNumber formData = []
                  then handleInputChange PatternNumber (the (extractedData.patternNumber data)) prev
                  else prev);
          prev = (if truthy (extractedData.patternName data) \<and> patternName formData = []
                  then handleInputChange PatternName (the (extractedData.patternName data)) prev
                  else prev);
          prev = (if truthy (extractedData.sizeRange data) \<and> sizeRange formData = []
                  then handleInputChange SizeRange (the (extractedData.sizeRange data)) prev
                  else prev);
          prev = (if truthy (extractedData.fabricType data) \<and> fabricType formData = []
                  then handleInputChange FabricType (the (extractedData.fabricType data)) prev
                  else prev);
          prev = (if truthy (extractedData.difficulty data) \<and> difficulty formData = []
                  then handleInputChange Difficulty (the (extractedData.difficulty data)) prev
                  else prev)
      in prev)"

text \<open>\<^verbatim>\<open>processOCRForPhoto\<close> on the form state: a failed recognition is caught and only
  reported, so the form is left as it is.\<close>

definition processOCRForPhoto ::
    "PatternFormData \<Rightarrow> string option \<Rightarrow> PatternFormData \<Rightarrow> PatternFormData" where
  "processOCRForPhoto formData outcome prev =
     (case processOCR outcome of
        Inl e \<Rightarrow> prev
      | Inr ocrResult \<Rightarrow> autoFill formData (extractedData ocrResult) prev)"

text \<open>\<^verbatim>\<open>resetForm\<close> stores the initial object again.\<close>

definition resetForm :: "PatternFormData \<Rightarrow> PatternFormData" where
  "resetForm prev =
     \<lparr>patternName = [], patternCompany = [], patternNumber = [], sizeRange = [],
      difficulty = ''Beginner'', fabricType = [], formNotes = [],
      frontPhoto = None, backPhoto = None\<rparr>"

text \<open>The values of the \<^verbatim>\<open>SelectItem\<close>s of the difficulty \<^verbatim>\<open>Select\<close>.\<close>

definition difficultyItems :: "string list" where
  "difficultyItems = [''Beginner'', ''Intermediate'', ''Advanced'', ''Expert'']"

text \<open>
  The form states the dialog can be in. The state starts as \<open>initialFormData\<close> and
  changes by: typing into one of the six text inputs; choosing an item of the
  difficulty select; uploading a front or back photo (\<^verbatim>\<open>handlePhotoUpload\<close>); the
  auto-fill of a finished recognition, whose handler closed over the state of some
  earlier render; and \<^verbatim>\<open>resetForm\<close>.
\<close>

inductive reachable :: "PatternFormData \<Rightarrow> bool" where
  initial: "reachable initialFormData"
| typed: "reachable s \<Longrightarrow> f \<noteq> Difficulty \<Longrightarrow> reachable (handleInputChange f v s)"
| selected: "reachable s \<Longrightarrow> v \<in> set difficultyItems \<Longrightarrow> reachable (handleInputChange Difficulty v s)"
| frontUpload: "reachable s \<Longrightarrow> reachable (s\<lparr>frontPhoto := Some file\<rparr>)"
| backUpload: "reachable s \<Longrightarrow> reachable (s\<lparr>backPhoto := Some file\<rparr>)"
| recognised: "reachable formData \<Longrightarrow> reachable s \<Longrightarrow> reachable (processOCRForPhoto formData outcome s)"
| reset: "reachable s \<Longrightarrow> reachable (resetForm s)"


section \<open>Rounding keeps the base score\<close>

lemma pow2_pos: "0 < pow2 e"
  by (simp add: pow2_def)

lemma pow2_powi: "pow2 e = 2 powi e"
  by (simp add: pow2_def power_int_def power_one_over)

lemma roundTiesEven_ge: "of_int n \<le> q \<Longrightarrow> n \<le> roundTiesEven q"
proof -
  assume "of_int n \<le> q"
  then have "n \<le> \<lfloor>q\<rfloor>" by (simp add: le_floor_iff)
  moreover have "\<lfloor>q\<rfloor> \<le> roundTiesEven q" by (simp add: roundTiesEven_def Let_def)
  ultimately show ?thesis by simp
qed

lemma toDouble_nonneg: "0 \<le> x \<Longrightarrow> 0 \<le> toDouble x"
proof (cases "x = 0")
  case True
  then show ?thesis by (simp add: toDouble_def)
next
  case False
  assume "0 \<le> x"
  with False have x: "0 < x" by simp
  let ?u = "pow2 (binExponent \<bar>x\<bar> - 52)"
  have "0 \<le> \<bar>x\<bar> / ?u" using pow2_pos [of "binExponent \<bar>x\<bar> - 52"] by simp
  then have "(0::int) \<le> roundTiesEven (\<bar>x\<bar> / ?u)" by (intro roundTiesEven_ge) simp
  then show ?thesis using x pow2_pos [of "binExponent \<bar>x\<bar> - 52"]
    by (simp add: toDouble_def Let_def)
qed

lemma expUp_lower: "1 \<le> x \<Longrightarrow> 0 \<le> expUp k x \<and> pow2 (expUp k x) \<le> x"
proof (induction k arbitrary: x)
  case 0
  then show ?case by (simp add: pow2_def)
next
  case (Suc k)
  show ?case
  proof (cases "x < 2")
    case True
    with Suc.prems show ?thesis by (simp add: pow2_def)
  next
    case False
    then have "1 \<le> x / 2" by simp
    from Suc.IH [OF this] have e: "0 \<le> expUp k (x / 2)" and p: "pow2 (expUp k (x / 2)) \<le> x / 2"
      by simp_all
    have "pow2 (expUp k (x / 2) + 1) = pow2 (expUp k (x / 2)) * 2"
      using e by (simp add: pow2_def nat_add_distrib)
    with p e False show ?thesis by simp
  qed
qed

text \<open>A positive \<open>x\<close> that is at least the power of two of its exponent is not rounded
  below that power.\<close>

lemma toDouble_above_pow2:
  assumes "0 < x" and "pow2 (binExponent x) \<le> x"
  shows "pow2 (binExponent x) \<le> toDouble x"
proof -
  let ?e = "binExponent x"
  let ?u = "pow2 (?e - 52)"
  have u: "0 < ?u" by (rule pow2_pos)
  have "pow2 ?e / ?u = pow2 52" by (simp add: pow2_powi power_int_diff)
  also have "\<dots> = of_int (2 ^ 52)" by (simp add: pow2_def)
  finally have eq: "pow2 ?e / ?u = of_int (2 ^ 52)" .
  have "pow2 ?e / ?u \<le> x / ?u" using assms(2) u by (simp add: divide_right_mono)
  with eq have "of_int (2 ^ 52) \<le> x / ?u" by simp
  then have "2 ^ 52 \<le> roundTiesEven (x / ?u)" by (rule roundTiesEven_ge)
  then have "of_int (2 ^ 52) * ?u \<le> of_int (roundTiesEven (x / ?u)) * ?u"
    using u by (simp add: mult_right_mono)
  moreover have "of_int (2 ^ 52) * ?u = pow2 ?e" using eq u by (simp add: field_simps)
  ultimately show ?thesis using assms(1) by (simp add: toDouble_def Let_def)
qed

lemma expDown_unfold:
  "expDown (numeral k) x = (if 1 \<le> x then 0 else expDown (pred_numeral k) (x * 2) - 1)"
  by (simp add: numeral_eq_Suc)

lemma binExponent_half: "1 / 2 \<le> x \<Longrightarrow> x < 1 \<Longrightarrow> binExponent x = - 1"
  by (simp add: binExponent_def expDown_unfold)

lemma binExponent_quarter: "1 / 4 \<le> x \<Longrightarrow> x < 1 / 2 \<Longrightarrow> binExponent x = - 2"
  by (simp add: binExponent_def expDown_unfold)

text \<open>The literal \<^verbatim>\<open>0.3\<close> is the number \<open>5404319552844595 / 2 ^ 54\<close>.\<close>

lemma toDouble_base: "toDouble (3 / 10) = 5404319552844595 / 18014398509481984"
  by code_simp

lemma toDouble_one: "toDouble 1 = 1"
  by code_simp

text \<open>Rounding never takes a value that is at least the base score below it: by cases
  on the exponent of \<open>x\<close>.\<close>

lemma toDouble_keeps_base:
  assumes "toDouble (3 / 10) \<le> x"
  shows "toDouble (3 / 10) \<le> toDouble x"
proof -
  from assms have x: "5404319552844595 / 18014398509481984 \<le> x" by (simp add: toDouble_base)
  consider "1 \<le> x" | "1 / 2 \<le> x" "x < 1" | "x < 1 / 2" by linarith
  then have "5404319552844595 / 18014398509481984 \<le> toDouble x"
  proof cases
    case 1
    then have "0 \<le> expUp 1023 x" and "pow2 (expUp 1023 x) \<le> x"
      using expUp_lower [of x 1023] by simp_all
    with 1 have e: "0 \<le> binExponent x" and p: "pow2 (binExponent x) \<le> x"
      by (simp_all add: binExponent_def)
    from 1 p have "pow2 (binExponent x) \<le> toDouble x" by (intro toDouble_above_pow2) simp_all
    moreover from e have "1 \<le> pow2 (binExponent x)" by (simp add: pow2_def)
    ultimately show ?thesis by simp
  next
    case 2
    then have e: "binExponent x = - 1" by (rule binExponent_half)
    with 2 have "pow2 (binExponent x) \<le> x" by (simp add: pow2_def)
    with 2 have "pow2 (binExponent x) \<le> toDouble x" by (intro toDouble_above_pow2) simp_all
    with e show ?thesis by (simp add: pow2_def)
  next
    case 3
    with x have e: "binExponent x = - 2" by (intro binExponent_quarter) simp_all
    have u: "pow2 (binExponent x - 52) = 1 / 18014398509481984" by (simp add: e pow2_def)
    from x have "of_int 5404319552844595 \<le> x / (1 / 18014398509481984)" by simp
    then have "5404319552844595 \<le> roundTiesEven (x / (1 / 18014398509481984))"
      by (rule roundTiesEven_ge)
    then have "(5404319552844595 :: rat) \<le> of_int (roundTiesEven (x / (1 / 18014398509481984)))"
      by linarith
    moreover from x have "0 < x" by simp
    ultimately show ?thesis by (simp add: toDouble_def Let_def u)
  qed
  then show ?thesis by (simp add: toDouble_base)
qed

lemma numAdd_keeps_base:
  assumes "toDouble (3 / 10) \<le> s" and "0 \<le> w"
  shows "toDouble (3 / 10) \<le> numAdd s (toDouble w)"
proof -
  from assms(2) have "0 \<le> toDouble w" by (rule toDouble_nonneg)
  with assms(1) have "toDouble (3 / 10) \<le> s + toDouble w" by simp
  then show ?thesis unfolding numAdd_def by (rule toDouble_keeps_base)
qed

section \<open>The confidence score\<close>

text \<open>The score rule in the words of the specification: a weight is added for a
  condition that holds, and nothing otherwise.\<close>

definition addIf :: "bool \<Rightarrow> rat \<Rightarrow> rat \<Rightarrow> rat" where
  "addIf holds weight score = (if holds then numAdd score (toDouble weight) else score)"






lemma addIf_keeps_base:
  "toDouble (3 / 10) \<le> s \<Longrightarrow> 0 \<le> w \<Longrightarrow> toDouble (3 / 10) \<le> addIf b w s"
  by (simp add: addIf_def numAdd_keeps_base)

lemma calculateConfidence_addIf:
  "calculateConfidence d t =
     min (addIf (100 < length t) (5 / 100) (addIf (50 < length t) (5 / 100)
       (addIf (truthy (extractedData.difficulty d)) (5 / 100)
         (addIf (truthy (extractedData.fabricType d)) (5 / 100)
           (addIf (truthy (extractedData.sizeRange d)) (1 / 10)
             (addIf (truthy (extractedData.patternName d)) (15 / 100)
               (addIf (truthy (extractedData.patternNumber d)) (2 / 10)
                 (addIf (truthy (company d)) (2 / 10) (toDouble (3 / 10)))))))))) 1"
  by (simp add: calculateConfidence_def addIf_def Let_def toDouble_one)

lemma calculateConfidence_range:
  "toDouble (3 / 10) \<le> calculateConfidence d t \<and> calculateConfidence d t \<le> 1"
proof -
  have "toDouble (3 / 10) \<le> 1" by (simp add: toDouble_base)
  then show ?thesis
    unfolding calculateConfidence_addIf
    by (simp add: addIf_keeps_base)
qed


lemma processOCR_Some:
  "processOCR (Some raw) =
     (let cleanText = trim (replaceAll flags_g (plus ws) '' '' raw)
      in Inr \<lparr>resultText = cleanText,
              confidence = calculateConfidence (extractStructuredData cleanText) cleanText,
              extractedData = extractStructuredData cleanText\<rparr>)"
  by (simp add: processOCR_def Let_def)

text \<open>
  C1. For every input string the extractor returns a result whose confidence lies
  between the base score (the number written \<^verbatim>\<open>0.3\<close>) and 1, and so between 0 and 1.
\<close>

theorem confidence_in_range:
  "\<exists>r. processOCR (Some raw) = Inr r \<and>
       toDouble (3 / 10) \<le> confidence r \<and> confidence r \<le> 1 \<and> 0 \<le> confidence r"
proof -
  let ?t = "trim (replaceAll flags_g (plus ws) '' '' raw)"
  let ?c = "calculateConfidence (extractStructuredData ?t) ?t"
  have b: "toDouble (3 / 10) \<le> ?c \<and> ?c \<le> 1" by (rule calculateConfidence_range)
  moreover have "(0::rat) \<le> toDouble (3 / 10)" by (simp add: toDouble_base)
  ultimately have "0 \<le> ?c" by linarith
  with b show ?thesis by (simp add: processOCR_Some Let_def)
qed

section \<open>Sample runs\<close>



lemma clean_blank: "trim (replaceAll flags_g (plus ws) '' '' ''  '') = []"
  by code_simp

lemma extract_empty: "extractStructuredData [] = emptyData"
  by code_simp




text \<open>The sums are the rounded ones: two length bonuses on the base score give the
  number below \<^verbatim>\<open>0.4\<close>, not \<^verbatim>\<open>0.4\<close>, the sum of the base score and \<^verbatim>\<open>0.1\<close>.\<close>

lemma two_bonuses_rounded:
  "numAdd (numAdd (toDouble (3 / 10)) (toDouble (5 / 100))) (toDouble (5 / 100)) < toDouble (4 / 10) \<and>
   numAdd (toDouble (3 / 10)) (toDouble (1 / 10)) = toDouble (4 / 10)"
  by code_simp

lemma clean_dots:
  "trim (replaceAll flags_g (plus ws) '' '' ''...................................................'') =
     ''...................................................''"
  by code_simp

lemma extract_dots:
  "extractStructuredData ''...................................................'' = emptyData"
  by code_simp

lemma small_scores:
  "toDouble (3 / 10) \<le> 1"
  "numAdd (toDouble (3 / 10)) (toDouble (5 / 100)) \<le> 1"
  "numAdd (numAdd (toDouble (3 / 10)) (toDouble (5 / 100))) (toDouble (5 / 100)) \<le> 1"
  by code_simp+

lemma calculateConfidence_emptyData:
  "calculateConfidence emptyData t =
     addIf (100 < length t) (5 / 100) (addIf (50 < length t) (5 / 100) (toDouble (3 / 10)))"
  using small_scores
  by (simp add: calculateConfidence_def emptyData_def truthy_def addIf_def Let_def toDouble_one)

text \<open>
  C3, as the claim states it, fails: a text of 51 full stops yields no field, and its
  confidence is the base score plus one length bonus, which is not the base score.
\<close>

theorem no_fields_confidence_counterexample:
  "processOCR (Some ''...................................................'') =
     Inr \<lparr>resultText = ''...................................................'',
          confidence = numAdd (toDouble (3 / 10)) (toDouble (5 / 100)),
          extractedData = emptyData\<rparr> \<and>
   numAdd (toDouble (3 / 10)) (toDouble (5 / 100)) \<noteq> toDouble (3 / 10)"
proof -
  have "numAdd (toDouble (3 / 10)) (toDouble (5 / 100)) \<noteq> toDouble (3 / 10)"
    by code_simp
  moreover have "numAdd (toDouble (3 / 10)) (toDouble (5 / 100)) \<le> 1"
    by code_simp
  ultimately show ?thesis
    by (simp add: processOCR_Some Let_def clean_dots extract_dots calculateConfidence_emptyData
        addIf_def)
qed

text \<open>
  C3, amended. The extractor has no failure mode: every input string yields a
  result. When no field is found, the confidence is the base score plus the length
  bonuses of the normalized text: the base score alone for at most 50 characters. For
  an input that is empty after normalization no field is found and the confidence is
  the base score.
\<close>

theorem extractor_total:
  "\<exists>r. processOCR (Some raw) = Inr r \<and>
     (extractedData r = emptyData \<longrightarrow>
        confidence r =
          addIf (100 < length (resultText r)) (5 / 100)
            (addIf (50 < length (resultText r)) (5 / 100) (toDouble (3 / 10))) \<and>
        (length (resultText r) \<le> 50 \<longrightarrow> confidence r = toDouble (3 / 10))) \<and>
     (resultText r = [] \<longrightarrow> extractedData r = emptyData \<and> confidence r = toDouble (3 / 10))"
proof -
  let ?t = "trim (replaceAll flags_g (plus ws) '' '' raw)"
  let ?d = "extractStructuredData ?t"
  let ?c = "calculateConfidence ?d ?t"
  let ?r = "\<lparr>resultText = ?t, confidence = ?c, extractedData = ?d\<rparr>"
  have r: "processOCR (Some raw) = Inr ?r"
    by (simp add: processOCR_Some Let_def)
  have none: "?c = addIf (100 < length ?t) (5 / 100) (addIf (50 < length ?t) (5 / 100) (toDouble (3 / 10)))"
    if "?d = emptyData"
    using that by (simp add: calculateConfidence_emptyData)
  have short: "?c = toDouble (3 / 10)" if "?d = emptyData" and "length ?t \<le> 50"
    using that by (simp add: calculateConfidence_emptyData addIf_def)
  have blank: "?d = emptyData \<and> ?c = toDouble (3 / 10)" if "?t = []"
    using that by (simp add: extract_empty calculateConfidence_emptyData addIf_def)
  show ?thesis
  proof (intro exI [of _ ?r] conjI impI)
    show "processOCR (Some raw) = Inr ?r" by (rule r)
  next
    assume "extractedData ?r = emptyData"
    then show "confidence ?r =
        addIf (100 < length (resultText ?r)) (5 / 100)
          (addIf (50 < length (resultText ?r)) (5 / 100) (toDouble (3 / 10)))"
      using none by simp
  next
    assume "extractedData ?r = emptyData" and "length (resultText ?r) \<le> 50"
    then show "confidence ?r = toDouble (3 / 10)" using short by simp
  next
    assume "resultText ?r = []"
    with blank show "extractedData ?r = emptyData" by auto
  next
    assume "resultText ?r = []"
    with blank show "confidence ?r = toDouble (3 / 10)" by auto
  qed
qed

theorem extractor_total_witness:
  "processOCR (Some ''  '') =
     Inr \<lparr>resultText = [], confidence = toDouble (3 / 10), extractedData = emptyData\<rparr>"
proof -
  from extractor_total [of "''  ''"] obtain r
    where r: "processOCR (Some ''  '') = Inr r"
      and e: "resultText r = [] \<longrightarrow> extractedData r = emptyData \<and> confidence r = toDouble (3 / 10)"
    by blast
  from r have t: "resultText r = []"
    by (auto simp: processOCR_Some Let_def clean_blank)
  with e have "r = \<lparr>resultText = [], confidence = toDouble (3 / 10), extractedData = emptyData\<rparr>"
    by (cases r) simp
  with r show ?thesis by simp
qed

section \<open>The pattern number rule\<close>

text \<open>What one shape contributes: its first match, stripped of the labels, accepted
  when it has 3 to 6 characters, in capitals.\<close>

definition numberCandidate :: "string \<Rightarrow> flags \<times> re \<Rightarrow> string option" where
  "numberCandidate t p =
     (case matchAll (fst p) (snd p) t of
        [] \<Rightarrow> None
      | m0 # _ \<Rightarrow>
          (let match = stripNumberLabels m0
           in if 3 \<le> length match \<and> length match \<le> 6 then Some (toUpperCase match) else None))"

text \<open>The rule as the specification words it: the first shape that yields any match
  decides, and the field is absent when that shape's first match is not accepted.\<close>

definition firstMatchingNumber :: "string \<Rightarrow> string option" where
  "firstMatchingNumber t =
     (case find (\<lambda>p. matchAll (fst p) (snd p) t \<noteq> []) numberPatterns of
        None \<Rightarrow> None
      | Some p \<Rightarrow> numberCandidate t p)"

lemma numberLoop_find:
  "numberLoop ps t =
     (case find (\<lambda>p. numberCandidate t p \<noteq> None) ps of
        None \<Rightarrow> None
      | Some p \<Rightarrow> numberCandidate t p)"
proof (induction ps)
  case Nil
  show ?case by simp
next
  case (Cons p ps)
  obtain fl pattern where p: "p = (fl, pattern)" by (cases p)
  show ?case
  proof (cases "matchAll fl pattern t")
    case Nil
    with Cons p show ?thesis by (simp add: numberCandidate_def)
  next
    case (Cons m0 ms)
    with Cons.IH p show ?thesis by (auto simp: numberCandidate_def Let_def)
  qed
qed

lemma upperChar_idem: "upperChar (upperChar c) = upperChar c"
proof -
  have "\<forall>c. upperChar (upperChar c) = upperChar c" by code_simp
  then show ?thesis by simp
qed

lemma numberCandidate_shape:
  assumes "numberCandidate t p = Some n"
  shows "3 \<le> length n \<and> length n \<le> 6 \<and> toUpperCase n = n"
proof -
  from assms obtain m where "3 \<le> length m" and "length m \<le> 6" and "n = toUpperCase m"
    by (auto simp: numberCandidate_def Let_def split: list.splits if_splits)
  then show ?thesis by (simp add: toUpperCase_def upperChar_idem)
qed

text \<open>
  C4, as the claim states it, fails: in \<^verbatim>\<open>Pattern A12345B No. a123b\<close> the first shape
  with a match is the \<^verbatim>\<open>Pattern\<close> label form, whose match strips to the seven
  characters \<^verbatim>\<open>A12345B\<close>; the field is not absent, the \<^verbatim>\<open>No.\<close> form supplies it.
\<close>

theorem pattern_number_counterexample:
  "firstMatchingNumber ''Pattern A12345B No. a123b'' = None \<and>
   extractPatternNumber ''Pattern A12345B No. a123b'' = Some ''A123B''"
  by code_simp

text \<open>
  C4, amended. The shapes are tried in priority order; the pattern number is taken
  from the first shape whose first match, stripped of the label text, has 3 to 6
  characters, and is that text in capitals; it is absent when no shape has such a match.
  A pattern number that is present has 3 to 6 characters and is in capitals.
\<close>

theorem pattern_number_first_accepted:
  "extractPatternNumber t =
     (case find (\<lambda>p. numberCandidate t p \<noteq> None) numberPatterns of
        None \<Rightarrow> None
      | Some p \<Rightarrow> numberCandidate t p) \<and>
   (\<forall>n. extractPatternNumber t = Some n \<longrightarrow>
      3 \<le> length n \<and> length n \<le> 6 \<and> toUpperCase n = n)"
proof
  show first: "extractPatternNumber t =
     (case find (\<lambda>p. numberCandidate t p \<noteq> None) numberPatterns of
        None \<Rightarrow> None
      | Some p \<Rightarrow> numberCandidate t p)"
    unfolding extractPatternNumber_def by (rule numberLoop_find)
  show "\<forall>n. extractPatternNumber t = Some n \<longrightarrow>
      3 \<le> length n \<and> length n \<le> 6 \<and> toUpperCase n = n"
  proof (intro allI impI)
    fix n
    assume "extractPatternNumber t = Some n"
    with first obtain p where "numberCandidate t p = Some n"
      by (auto split: option.splits)
    then show "3 \<le> length n \<and> length n \<le> 6 \<and> toUpperCase n = n"
      by (rule numberCandidate_shape)
  qed
qed

theorem pattern_number_first_accepted_witness:
  "extractPatternNumber ''Pattern A12345B No. a123b'' = Some ''A123B'' \<and>
   find (\<lambda>p. numberCandidate ''Pattern A12345B No. a123b'' p \<noteq> None) numberPatterns
     = Some (numberPatterns ! 3) \<and>
   toUpperCase ''A123B'' = ''A123B''"
proof -
  have e: "extractPatternNumber ''Pattern A12345B No. a123b'' = Some ''A123B''"
    by code_simp
  have f: "find (\<lambda>p. numberCandidate ''Pattern A12345B No. a123b'' p \<noteq> None) numberPatterns
     = Some (numberPatterns ! 3)"
    by code_simp
  from pattern_number_first_accepted [of "''Pattern A12345B No. a123b''"] e
  have "toUpperCase ''A123B'' = ''A123B''" by simp
  with e f show ?thesis by simp
qed

section \<open>The difficulty rule\<close>

text \<open>What one difficulty pattern contributes: its first match, cut after the last
  colon, trimmed and normalized.\<close>

definition difficultyCandidate :: "string \<Rightarrow> flags \<times> re \<Rightarrow> string option" where
  "difficultyCandidate t p =
     (case matchAll (fst p) (snd p) t of
        [] \<Rightarrow> None
      | m0 # _ \<Rightarrow> normalizeDifficulty (trim (replaceAll flags_gi upToColon [] m0)))"

text \<open>The rule as the specification words it: the first pattern that matches decides,
  and the field stays absent when its match normalizes to nothing.\<close>

definition firstMatchingDifficulty :: "string \<Rightarrow> string option" where
  "firstMatchingDifficulty t =
     (case find (\<lambda>p. matchAll (fst p) (snd p) t \<noteq> []) DIFFICULTY_PATTERNS of
        None \<Rightarrow> None
      | Some p \<Rightarrow> difficultyCandidate t p)"

definition difficultyLevels :: "string list" where
  "difficultyLevels = [''Beginner'', ''Intermediate'', ''Advanced'', ''Expert'']"

lemma normalizeDifficulty_level:
  "normalizeDifficulty m = Some d \<Longrightarrow> d \<in> set difficultyLevels"
  by (auto simp: normalizeDifficulty_def difficultyLevels_def Let_def split: if_splits)

lemma truthy_normalizeDifficulty:
  "truthy (normalizeDifficulty m) = (normalizeDifficulty m \<noteq> None)"
  by (simp add: normalizeDifficulty_def truthy_def Let_def)

lemma difficultyLoop_find:
  "difficultyLoop ps t =
     (case find (\<lambda>p. difficultyCandidate t p \<noteq> None) ps of
        None \<Rightarrow> None
      | Some p \<Rightarrow> difficultyCandidate t p)"
proof (induction ps)
  case Nil
  show ?case by simp
next
  case (Cons p ps)
  obtain fl pattern where p: "p = (fl, pattern)" by (cases p)
  show ?case
  proof (cases "matchAll fl pattern t")
    case Nil
    with Cons p show ?thesis by (simp add: difficultyCandidate_def)
  next
    case (Cons m0 ms)
    with Cons.IH p show ?thesis
      by (auto simp: difficultyCandidate_def Let_def truthy_normalizeDifficulty)
  qed
qed

text \<open>
  C5, as the claim states it, fails: in \<^verbatim>\<open>Level1 Skill Level 2\<close> the first pattern
  that matches is \<^verbatim>\<open>Level N\<close>, its first match \<^verbatim>\<open>Level1\<close> normalizes to nothing, and
  yet the field is set, from the \<^verbatim>\<open>Skill Level\<close> pattern.
\<close>

theorem difficulty_counterexample:
  "firstMatchingDifficulty ''Level1 Skill Level 2'' = None \<and>
   extractDifficulty ''Level1 Skill Level 2'' = Some ''Intermediate''"
  by code_simp

text \<open>
  C5, amended. A matched text is normalized by the substring rules on its lower-cased
  form, the earlier rule winning: \<^verbatim>\<open>beginner\<close>, \<^verbatim>\<open>easy\<close> or \<^verbatim>\<open>level 1\<close> gives Beginner;
  \<^verbatim>\<open>intermediate\<close> or \<^verbatim>\<open>level 2\<close> Intermediate; \<^verbatim>\<open>advanced\<close> or \<^verbatim>\<open>level 3\<close> Advanced;
  \<^verbatim>\<open>expert\<close> or \<^verbatim>\<open>level 4\<close> Expert; anything else nothing. The difficulty is the
  normalized first match of the first pattern, in order, whose first match normalizes to
  one of the four levels; it is absent when no pattern has such a match.
\<close>

theorem difficulty_first_normalized:
  "extractDifficulty t =
     (case find (\<lambda>p. difficultyCandidate t p \<noteq> None) DIFFICULTY_PATTERNS of
        None \<Rightarrow> None
      | Some p \<Rightarrow> difficultyCandidate t p) \<and>
   (\<forall>d. extractDifficulty t = Some d \<longrightarrow> d \<in> set difficultyLevels) \<and>
   normalizeDifficulty m =
     (let has = (\<lambda>word. strIncludes (toLowerCase m) word)
      in if has ''beginner'' \<or> has ''easy'' \<or> has ''level 1'' then Some ''Beginner''
         else if has ''intermediate'' \<or> has ''level 2'' then Some ''Intermediate''
         else if has ''advanced'' \<or> has ''level 3'' then Some ''Advanced''
         else if has ''expert'' \<or> has ''level 4'' then Some ''Expert''
         else None)"
proof (intro conjI)
  show first: "extractDifficulty t =
     (case find (\<lambda>p. difficultyCandidate t p \<noteq> None) DIFFICULTY_PATTERNS of
        None \<Rightarrow> None
      | Some p \<Rightarrow> difficultyCandidate t p)"
    unfolding extractDifficulty_def by (rule difficultyLoop_find)
  show "\<forall>d. extractDifficulty t = Some d \<longrightarrow> d \<in> set difficultyLevels"
  proof (intro allI impI)
    fix d
    assume "extractDifficulty t = Some d"
    with first obtain p where "difficultyCandidate t p = Some d"
      by (auto split: option.splits)
    then show "d \<in> set difficultyLevels"
      by (auto simp: difficultyCandidate_def split: list.splits dest: normalizeDifficulty_level)
  qed
  show "normalizeDifficulty m =
     (let has = (\<lambda>word. strIncludes (toLowerCase m) word)
      in if has ''beginner'' \<or> has ''easy'' \<or> has ''level 1'' then Some ''Beginner''
         else if has ''intermediate'' \<or> has ''level 2'' then Some ''Intermediate''
         else if has ''advanced'' \<or> has ''level 3'' then Some ''Advanced''
         else if has ''expert'' \<or> has ''level 4'' then Some ''Expert''
         else None)"
    by (simp add: normalizeDifficulty_def Let_def)
qed

theorem difficulty_first_normalized_witness:
  "extractDifficulty ''Level1 Skill Level 2'' = Some ''Intermediate'' \<and>
   find (\<lambda>p. difficultyCandidate ''Level1 Skill Level 2'' p \<noteq> None) DIFFICULTY_PATTERNS
     = Some (DIFFICULTY_PATTERNS ! 2) \<and>
   ''Intermediate'' \<in> set difficultyLevels"
proof -
  have e: "extractDifficulty ''Level1 Skill Level 2'' = Some ''Intermediate''"
    by code_simp
  have f: "find (\<lambda>p. difficultyCandidate ''Level1 Skill Level 2'' p \<noteq> None) DIFFICULTY_PATTERNS
     = Some (DIFFICULTY_PATTERNS ! 2)"
    by code_simp
  from difficulty_first_normalized [of "''Level1 Skill Level 2''"] e
  have "''Intermediate'' \<in> set difficultyLevels" by blast
  with e f show ?thesis by simp
qed

section \<open>The pattern name rule\<close>







section \<open>The fabric rule\<close>

text \<open>
  C7. The catalogue scan respects word boundaries, but the label scan does not collect
  the span that follows a label: the span's class excludes the letters \<^verbatim>\<open>n\<close> and
  \<^verbatim>\<open>r\<close>, so the span stops before them. For \<^verbatim>\<open>Fabrics: Corduroy\<close> the entry is
  \<^verbatim>\<open>Co\<close>, not \<^verbatim>\<open>Corduroy\<close>; \<^verbatim>\<open>Woolworth\<close> alone is no hit.
\<close>

theorem fabric_label_span_cut:
  "extractFabricType ''Fabrics: Corduroy'' = Some ''Co'' \<and>
   extractFabricType ''Woolworth'' = None"
  by code_simp

section \<open>The company fallback\<close>

text \<open>The tokens of a text: lower-cased, split at white space.\<close>

definition tokens :: "string \<Rightarrow> string list" where
  "tokens s = splitAt flags_g (plus ws) (toLowerCase s)"

text \<open>A catalogue name shares a token with a text.\<close>

definition sharesToken :: "string \<Rightarrow> string \<Rightarrow> bool" where
  "sharesToken name t = list_ex (\<lambda>word. word \<in> set (tokens t)) (tokens name)"

lemma exactCompany_None:
  "(exactCompany names t = None) = (\<forall>name \<in> set names. \<not> regExpTest flags_gi (companyRegex name) t)"
  by (induction names) simp_all

lemma partialCompany_find:
  "partialCompany names (tokens t) = find (\<lambda>name. sharesToken name t) names"
  by (induction names) (simp_all add: Let_def sharesToken_def someWordIncluded_def tokens_def)

lemma distinct_companies: "distinct PATTERN_COMPANIES"
  by code_simp

text \<open>
  C8. When no catalogue name matches the text as a phrase, the company is the first
  catalogue name, in the order of the catalogue, that shares a token with the text; so
  a name listed after another name that shares a token is never chosen.
\<close>

theorem company_fallback_first_listed:
  assumes "\<forall>name \<in> set PATTERN_COMPANIES. \<not> regExpTest flags_gi (companyRegex name) t"
  shows "extractCompany t = find (\<lambda>name. sharesToken name t) PATTERN_COMPANIES \<and>
         (\<forall>i j. i < j \<longrightarrow> j < length PATTERN_COMPANIES \<longrightarrow>
            sharesToken (PATTERN_COMPANIES ! i) t \<longrightarrow>
            extractCompany t \<noteq> Some (PATTERN_COMPANIES ! j))"
proof
  from assms have "exactCompany PATTERN_COMPANIES t = None"
    by (simp add: exactCompany_None)
  then show first: "extractCompany t = find (\<lambda>name. sharesToken name t) PATTERN_COMPANIES"
    using partialCompany_find [of PATTERN_COMPANIES t]
    by (simp add: extractCompany_def tokens_def)
  show "\<forall>i j. i < j \<longrightarrow> j < length PATTERN_COMPANIES \<longrightarrow>
            sharesToken (PATTERN_COMPANIES ! i) t \<longrightarrow>
            extractCompany t \<noteq> Some (PATTERN_COMPANIES ! j)"
  proof (intro allI impI notI)
    fix i j
    assume ij: "i < j" and j: "j < length PATTERN_COMPANIES"
      and share: "sharesToken (PATTERN_COMPANIES ! i) t"
      and chosen: "extractCompany t = Some (PATTERN_COMPANIES ! j)"
    from chosen first obtain k where k: "k < length PATTERN_COMPANIES"
      and same: "PATTERN_COMPANIES ! j = PATTERN_COMPANIES ! k"
      and least: "\<forall>l<k. \<not> sharesToken (PATTERN_COMPANIES ! l) t"
      by (auto simp: find_Some_iff)
    from same j k distinct_companies have "j = k" by (simp add: nth_eq_iff_index_eq)
    with least ij share show False by blast
  qed
qed

theorem company_fallback_first_listed_witness:
  "extractCompany ''pirates sew'' = Some ''Kwik Sew'' \<and>
   sharesToken ''Kwik Sew'' ''pirates sew'' \<and>
   sharesToken ''Patterns for Pirates'' ''pirates sew'' \<and>
   PATTERN_COMPANIES ! 6 = ''Kwik Sew'' \<and> PATTERN_COMPANIES ! 7 = ''Patterns for Pirates''"
proof -
  have none: "\<forall>name \<in> set PATTERN_COMPANIES. \<not> regExpTest flags_gi (companyRegex name) ''pirates sew''"
    by code_simp
  have f: "find (\<lambda>name. sharesToken name ''pirates sew'') PATTERN_COMPANIES = Some ''Kwik Sew''"
    by code_simp
  have s: "sharesToken ''Kwik Sew'' ''pirates sew'' \<and> sharesToken ''Patterns for Pirates'' ''pirates sew''"
    by code_simp
  have n: "PATTERN_COMPANIES ! 6 = ''Kwik Sew'' \<and> PATTERN_COMPANIES ! 7 = ''Patterns for Pirates''"
    by code_simp
  from company_fallback_first_listed [OF none] f
  have "extractCompany ''pirates sew'' = Some ''Kwik Sew''" by simp
  with s n show ?thesis by simp
qed

section \<open>The auto-fill of the form\<close>

text \<open>
  C9. The guards of the auto-fill read the state the handler closed over, not the
  state the writes are applied to. A name typed while the recognition runs is in the
  current state only, and the auto-fill replaces it: the handler was created when the
  form was in its initial state, the form then reached the state with the typed name
  \<^verbatim>\<open>Summer Frock\<close>, and the auto-fill of the extracted name \<^verbatim>\<open>Wrap Dress\<close> on that
  state replaces the typed name.
\<close>

theorem autofill_replaces_typed_name:
  "reachable initialFormData \<and>
   reachable (handleInputChange PatternName ''Summer Frock'' initialFormData) \<and>
   PatternFormData.patternName (handleInputChange PatternName ''Summer Frock'' initialFormData)
     = ''Summer Frock'' \<and>
   PatternFormData.patternName
     (autoFill initialFormData
        \<lparr>company = None, patternNumber = None, patternName = Some ''Wrap Dress'',
         sizeRange = None, fabricType = None, difficulty = None\<rparr>
        (handleInputChange PatternName ''Summer Frock'' initialFormData))
     = ''Wrap Dress''"
proof (intro conjI)
  show "reachable initialFormData" by (rule reachable.initial)
  show "reachable (handleInputChange PatternName ''Summer Frock'' initialFormData)"
    by (rule reachable.typed [OF reachable.initial]) simp
  show "PatternFormData.patternName (handleInputChange PatternName ''Summer Frock'' initialFormData)
     = ''Summer Frock''"
    by simp
  show "PatternFormData.patternName
     (autoFill initialFormData
        \<lparr>company = None, patternNumber = None, patternName = Some ''Wrap Dress'',
         sizeRange = None, fabricType = None, difficulty = None\<rparr>
        (handleInputChange PatternName ''Summer Frock'' initialFormData))
     = ''Wrap Dress''"
    by (simp add: autoFill_def initialFormData_def truthy_def)
qed

text \<open>When the handler's state is the current one, a field that holds text is kept.\<close>

lemma autoFill_keeps_filled:
  "PatternFormData.patternName s \<noteq> [] \<Longrightarrow>
     PatternFormData.patternName (autoFill s data s) = PatternFormData.patternName s"
  "patternCompany s \<noteq> [] \<Longrightarrow> patternCompany (autoFill s data s) = patternCompany s"
  "PatternFormData.patternNumber s \<noteq> [] \<Longrightarrow>
     PatternFormData.patternNumber (autoFill s data s) = PatternFormData.patternNumber s"
  "PatternFormData.sizeRange s \<noteq> [] \<Longrightarrow>
     PatternFormData.sizeRange (autoFill s data s) = PatternFormData.sizeRange s"
  "PatternFormData.fabricType s \<noteq> [] \<Longrightarrow>
     PatternFormData.fabricType (autoFill s data s) = PatternFormData.fabricType s"
  by (simp_all add: autoFill_def Let_def)

section \<open>The difficulty of the form\<close>

lemma handleInputChange_difficulty:
  "f \<noteq> Difficulty \<Longrightarrow>
     PatternFormData.difficulty (handleInputChange f v s) = PatternFormData.difficulty s"
  by (cases f) simp_all

lemma autoFill_difficulty:
  "PatternFormData.difficulty formData \<noteq> [] \<Longrightarrow>
     PatternFormData.difficulty (autoFill formData data prev) = PatternFormData.difficulty prev"
  by (simp add: autoFill_def Let_def)

lemma processOCRForPhoto_difficulty:
  "PatternFormData.difficulty formData \<noteq> [] \<Longrightarrow>
     PatternFormData.difficulty (processOCRForPhoto formData outcome prev)
       = PatternFormData.difficulty prev"
  by (simp add: processOCRForPhoto_def autoFill_difficulty split: sum.splits)

lemma difficultyItems_nonempty: "v \<in> set difficultyItems \<Longrightarrow> v \<noteq> []"
  by (auto simp: difficultyItems_def)

lemma reachable_difficulty:
  "reachable s \<Longrightarrow> PatternFormData.difficulty s \<in> set difficultyItems"
proof (induction rule: reachable.induct)
  case initial
  show ?case by (simp add: initialFormData_def difficultyItems_def)
next
  case (typed s f v)
  then show ?case by (simp add: handleInputChange_difficulty)
next
  case (selected s v)
  then show ?case by simp
next
  case (frontUpload s photo)
  then show ?case by simp
next
  case (backUpload s photo)
  then show ?case by simp
next
  case (recognised formData s outcome)
  from recognised.IH(1) have "PatternFormData.difficulty formData \<noteq> []"
    by (rule difficultyItems_nonempty)
  with recognised.IH(2) show ?case by (simp add: processOCRForPhoto_difficulty)
next
  case (reset s)
  show ?case by (simp add: resetForm_def difficultyItems_def)
qed

text \<open>
  C10. The form's difficulty starts as \<^verbatim>\<open>Beginner\<close> and is reset to it; in every
  state the form can reach it is one of the four items, never empty. So the guard of
  the difficulty auto-fill is false for the state of any render, and an auto-fill
  leaves the difficulty of the form as it is, whatever difficulty was extracted.
\<close>

theorem difficulty_never_autofilled:
  assumes "reachable formData"
  shows "PatternFormData.difficulty initialFormData = ''Beginner'' \<and>
         PatternFormData.difficulty (resetForm prev) = ''Beginner'' \<and>
         PatternFormData.difficulty formData \<noteq> [] \<and>
         \<not> (truthy (extractedData.difficulty data) \<and> PatternFormData.difficulty formData = []) \<and>
         PatternFormData.difficulty (autoFill formData data prev) = PatternFormData.difficulty prev \<and>
         PatternFormData.difficulty (processOCRForPhoto formData outcome prev)
           = PatternFormData.difficulty prev"
proof -
  from assms have "PatternFormData.difficulty formData \<in> set difficultyItems"
    by (rule reachable_difficulty)
  then have ne: "PatternFormData.difficulty formData \<noteq> []"
    by (rule difficultyItems_nonempty)
  then show ?thesis
    by (simp add: initialFormData_def resetForm_def autoFill_difficulty processOCRForPhoto_difficulty)
qed

theorem difficulty_never_autofilled_witness:
  "reachable (handleInputChange Difficulty ''Advanced'' initialFormData) \<and>
   PatternFormData.difficulty
     (autoFill (handleInputChange Difficulty ''Advanced'' initialFormData)
        \<lparr>company = None, patternNumber = None, patternName = None,
         sizeRange = None, fabricType = None, difficulty = Some ''Expert''\<rparr>
        (handleInputChange Difficulty ''Advanced'' initialFormData)) = ''Advanced''"
proof -
  have r: "reachable (handleInputChange Difficulty ''Advanced'' initialFormData)"
    by (rule reachable.selected [OF reachable.initial]) (simp add: difficultyItems_def)
  from difficulty_never_autofilled [OF r] show ?thesis using r by simp
qed

end
